theory Spec2Isabelle
  imports Main "HOL-Library.Sublist"
begin

section \<open>PapayaFresh API server: the helper functions and the handlers of server.js\<close>

text \<open>
  The development embeds the three helper functions of \<^verbatim>\<open>server.js\<close>
  (\<^verbatim>\<open>calculateFreshnessDistribution\<close>, \<^verbatim>\<open>calculateWeeklyScans\<close>,
  \<^verbatim>\<open>formatTimeAgo\<close>), the handler of \<^verbatim>\<open>GET /api/dashboard/stats\<close> and the handler
  of \<^verbatim>\<open>DELETE /api/users/delete/:userId\<close>.

  JavaScript values are modelled as follows.
  \<^item> A string is a \<open>string\<close>: a list of code units below 256.
  \<^item> A \<^verbatim>\<open>Date\<close> object is its time value: \<open>Some t\<close> with \<open>t\<close> the milliseconds since the
    epoch, or \<open>None\<close> for the time value NaN (an invalid date). Time values are integers of
    magnitude at most \<open>8.64 * 10^15\<close>; the differences, products and floored quotients that
    the code computes on them are exact in double precision as long as the difference
    \<^verbatim>\<open>now - date\<close> stays below \<open>2^53\<close> in magnitude, which holds for every wall-clock \<open>now\<close>,
    so they are computed on \<open>int\<close>.
  \<^item> An exception is a value \<open>Inl e\<close> of a sum type.
\<close>

subsection \<open>Strings\<close>

definition toLowerChar :: "char \<Rightarrow> char" where
  \<comment> \<open>One code unit of \<^verbatim>\<open>String.prototype.toLowerCase\<close>: A-Z, and the capital letters of Latin-1.\<close>
  "toLowerChar c =
     (let n = (of_char c :: nat)
      in if 65 \<le> n \<and> n \<le> 90 then char_of (n + 32)
         else if 192 \<le> n \<and> n \<le> 222 \<and> n \<noteq> 215 then char_of (n + 32)
         else c)"

definition toLowerCase :: "string \<Rightarrow> string" where
  "toLowerCase s = map toLowerChar s"

fun strIncludes :: "string \<Rightarrow> string \<Rightarrow> bool" where
  \<comment> \<open>\<^verbatim>\<open>s.includes(sub)\<close>: \<open>sub\<close> occurs in \<open>s\<close> as a contiguous run.\<close>
  "strIncludes [] sub = (sub = [])"
| "strIncludes (c # cs) sub = (prefix sub (c # cs) \<or> strIncludes cs sub)"

definition orEmpty :: "string option \<Rightarrow> string" where
  \<comment> \<open>\<^verbatim>\<open>x || ''\<close> for a field that is absent or a string.\<close>
  "orEmpty x = (case x of None \<Rightarrow> [] | Some s \<Rightarrow> s)"

definition orString :: "string option \<Rightarrow> string \<Rightarrow> string" where
  \<comment> \<open>\<^verbatim>\<open>x || d\<close>: the empty string is falsy as an absent field is.\<close>
  "orString x d = (case x of None \<Rightarrow> d | Some s \<Rightarrow> if s = [] then d else s)"

subsection \<open>Timestamps as the document store returns them\<close>

datatype error = TypeError | StoreError

type_synonym date = "int option"

text \<open>What \<^verbatim>\<open>new Date(ob)\<close> does with an object: a \<^verbatim>\<open>Date\<close> instance hands over its time
  value; any other object is converted to a primitive first, which gives a string (then
  parsed) or a number (then clipped), or raises.\<close>

datatype conversion =
    DateInstance date
  | ToString string
  | ToNumber int
  | Raises error

record jsobject =
  toDate :: "(error + date) option"
    \<comment> \<open>the \<^verbatim>\<open>toDate\<close> property if it is truthy: what calling it does, raise or return a date\<close>
  seconds :: "int option"
    \<comment> \<open>the \<^verbatim>\<open>seconds\<close> property if it is a number (an integer)\<close>
  conversion :: conversion

datatype jsvalue =
    Nullish
  | JString string
  | JNumber int
  | JObject jsobject

fun truthy :: "jsvalue \<Rightarrow> bool" where
  "truthy Nullish = False"
| "truthy (JString s) = (s \<noteq> [])"
| "truthy (JNumber n) = (n \<noteq> 0)"
| "truthy (JObject ob) = True"

definition orElse :: "jsvalue \<Rightarrow> jsvalue \<Rightarrow> jsvalue" where
  \<comment> \<open>\<^verbatim>\<open>a || b\<close>\<close>
  "orElse a b = (if truthy a then a else b)"

definition timeClip :: "int \<Rightarrow> date" where
  "timeClip t = (if \<bar>t\<bar> \<le> 8640000000000000 then Some t else None)"

fun newDate :: "(string \<Rightarrow> date) \<Rightarrow> jsvalue \<Rightarrow> error + date" where
  \<comment> \<open>\<^verbatim>\<open>new Date(v)\<close>; \<open>parse\<close> is the runtime's \<^verbatim>\<open>Date.parse\<close>. Both callers test \<open>v\<close> first,
     so the first equation (\<^verbatim>\<open>new Date(null)\<close>, the epoch) is never used.\<close>
  "newDate parse Nullish = Inr (Some 0)"
| "newDate parse (JString s) = Inr (parse s)"
| "newDate parse (JNumber n) = Inr (timeClip n)"
| "newDate parse (JObject ob) =
     (case conversion ob of
        DateInstance d \<Rightarrow> Inr d
      | ToString str \<Rightarrow> Inr (parse str)
      | ToNumber n \<Rightarrow> Inr (timeClip n)
      | Raises e \<Rightarrow> Inl e)"

fun hasToDate :: "jsvalue \<Rightarrow> bool" where
  \<comment> \<open>\<^verbatim>\<open>v.toDate\<close> is truthy (\<open>v\<close> itself truthy)\<close>
  "hasToDate (JObject ob) = (toDate ob \<noteq> None)"
| "hasToDate _ = False"

fun callToDate :: "jsvalue \<Rightarrow> error + date" where
  \<comment> \<open>\<^verbatim>\<open>v.toDate()\<close>; calling what is not a function raises a TypeError\<close>
  "callToDate (JObject ob) = (case toDate ob of Some r \<Rightarrow> r | None \<Rightarrow> Inl TypeError)"
| "callToDate _ = Inl TypeError"

fun isString :: "jsvalue \<Rightarrow> bool" where
  "isString (JString s) = True"
| "isString _ = False"

fun secondsOf :: "jsvalue \<Rightarrow> int option" where
  \<comment> \<open>\<^verbatim>\<open>v.seconds\<close> when it is truthy\<close>
  "secondsOf (JObject ob) = (case seconds ob of Some s \<Rightarrow> if s = 0 then None else Some s | None \<Rightarrow> None)"
| "secondsOf _ = None"

subsection \<open>Scan records\<close>

record docData =
  name :: "string option"
  freshness :: "string option"
  harvestedDate :: jsvalue
  scannedDate :: jsvalue
  addedAt :: jsvalue
  archivedAt :: jsvalue

record scanData = docData +
  scanId :: string
  userId :: string
  userEmail :: string

subsection \<open>calculateFreshnessDistribution\<close>

record distribution =
  unripe :: nat
  ripe :: nat
  overripe :: nat

datatype bucket = Unripe | Ripe | Overripe

definition classify :: "string option \<Rightarrow> bucket" where
  \<comment> \<open>the test chain of the loop body, on \<^verbatim>\<open>(scan.freshness || '').toLowerCase()\<close>\<close>
  "classify fr =
     (let l = toLowerCase (orEmpty fr)
      in if strIncludes l ''unripe'' \<or> l = ''green'' \<or> strIncludes l ''early'' then Unripe
         else if strIncludes l ''overripe'' \<or> l = ''rotten'' \<or> strIncludes l ''late'' then Overripe
         else Ripe)"

definition countScan :: "scanData \<Rightarrow> distribution \<Rightarrow> distribution" where
  \<comment> \<open>the body of the \<^verbatim>\<open>forEach\<close>\<close>
  "countScan scan d =
     (case classify (freshness scan) of
        Unripe \<Rightarrow> d\<lparr>unripe := unripe d + 1\<rparr>
      | Overripe \<Rightarrow> d\<lparr>overripe := overripe d + 1\<rparr>
      | Ripe \<Rightarrow> d\<lparr>ripe := ripe d + 1\<rparr>)"

definition tally :: "scanData list \<Rightarrow> distribution" where
  "tally scans = fold countScan scans \<lparr>unripe = 0, ripe = 0, overripe = 0\<rparr>"

definition calculateFreshnessDistribution :: "scanData list \<Rightarrow> distribution" where
  "calculateFreshnessDistribution scans =
     (let d = tally scans
      in if unripe d = 0 \<and> ripe d = 0 \<and> overripe d = 0
         then \<lparr>unripe = 1, ripe = 1, overripe = 1\<rparr>
         else d)"

subsection \<open>Numbers in template literals\<close>

fun digitsOf :: "nat \<Rightarrow> string" where
  "digitsOf n =
     (if n < 10 then [char_of (48 + n)]
      else digitsOf (n div 10) @ [char_of (48 + n mod 10)])"

declare digitsOf.simps [simp del]

definition numberToString :: "int \<Rightarrow> string" where
  \<comment> \<open>an integer below \<open>10^21\<close> in magnitude prints as its decimal digits\<close>
  "numberToString n =
     (if n < 0 then CHR ''-'' # digitsOf (nat (- n)) else digitsOf (nat n))"

subsection \<open>formatTimeAgo\<close>

definition activityTime :: "(string \<Rightarrow> date) \<Rightarrow> jsvalue \<Rightarrow> error + date" where
  \<comment> \<open>the chain that decodes \<^verbatim>\<open>timestamp\<close>, inside the \<^verbatim>\<open>try\<close>\<close>
  "activityTime parse timestamp =
     (if hasToDate timestamp then callToDate timestamp
      else if isString timestamp then newDate parse timestamp
      else (case secondsOf timestamp of
              Some s \<Rightarrow> Inr (timeClip (s * 1000))
            | None \<Rightarrow> newDate parse timestamp))"

definition formatTimeAgoTry :: "(string \<Rightarrow> date) \<Rightarrow> int \<Rightarrow> jsvalue \<Rightarrow> error + string" where
  \<comment> \<open>the body of the \<^verbatim>\<open>try\<close>; \<open>now\<close> is the time value of \<^verbatim>\<open>new Date()\<close>\<close>
  "formatTimeAgoTry parse now timestamp =
     (case activityTime parse timestamp of
        Inl e \<Rightarrow> Inl e
      | Inr None \<Rightarrow> Inr ''Recent''
      | Inr (Some t) \<Rightarrow>
          (let diffMinutes = (now - t) div 60000
           in if diffMinutes < 1 then Inr ''Just now''
              else if diffMinutes < 60 then Inr (numberToString diffMinutes @ '' mins ago'')
              else if diffMinutes < 1440
                then Inr (numberToString (diffMinutes div 60) @ '' hr ago'')
              else Inr (numberToString (diffMinutes div 1440) @ '' days ago'')))"

definition formatTimeAgo :: "(string \<Rightarrow> date) \<Rightarrow> int \<Rightarrow> jsvalue \<Rightarrow> error + string" where
  "formatTimeAgo parse now timestamp =
     (if truthy timestamp
      then (case formatTimeAgoTry parse now timestamp of
              Inl e \<Rightarrow> Inr ''Recent''
            | Inr s \<Rightarrow> Inr s)
      else Inr ''Recent'')"

subsection \<open>calculateWeeklyScans\<close>

datatype jsnumber = NaN | Num int

text \<open>An array is the list of its slots; \<open>None\<close> is a hole (an index below the length
  that holds no element).\<close>

type_synonym jsarray = "jsnumber option list"

fun increment :: "jsnumber option \<Rightarrow> jsnumber" where
  \<comment> \<open>the value \<^verbatim>\<open>x++\<close> stores: \<^verbatim>\<open>undefined\<close> converts to NaN\<close>
  "increment None = NaN"
| "increment (Some NaN) = NaN"
| "increment (Some (Num n)) = Num (n + 1)"

definition incrementAt :: "jsarray \<Rightarrow> nat \<Rightarrow> jsarray" where
  \<comment> \<open>\<^verbatim>\<open>a[i]++\<close>: a store beyond the length extends the array, leaving holes\<close>
  "incrementAt a i =
     (if i < length a then a[i := Some (increment (a ! i))]
      else a @ replicate (i - length a) None @ [Some (increment None)])"

fun mathMax1 :: "jsnumber \<Rightarrow> jsnumber" where
  \<comment> \<open>\<^verbatim>\<open>Math.max(1, count)\<close>\<close>
  "mathMax1 NaN = NaN"
| "mathMax1 (Num n) = Num (max 1 n)"

definition weeklyEach :: "(string \<Rightarrow> date) \<Rightarrow> int \<Rightarrow> scanData \<Rightarrow> jsarray \<Rightarrow> error + jsarray" where
  \<comment> \<open>the body of the \<^verbatim>\<open>forEach\<close>, on \<^verbatim>\<open>weeklyData\<close>; a comparison with NaN is false\<close>
  "weeklyEach parse now scan weeklyData =
     (let scanDate = orElse (orElse (scannedDate scan) (addedAt scan)) (harvestedDate scan)
      in if truthy scanDate
         then (case (if hasToDate scanDate then callToDate scanDate
                     else newDate parse scanDate) of
                 Inl e \<Rightarrow> Inl e
               | Inr None \<Rightarrow> Inr weeklyData
               | Inr (Some t) \<Rightarrow>
                   (let diffWeeks = (now - t) div (7 * 24 * 60 * 60 * 1000)
                    in if diffWeeks < 4 then Inr (incrementAt weeklyData (nat (3 - diffWeeks)))
                       else Inr weeklyData))
         else Inr weeklyData)"

fun forEach :: "('a \<Rightarrow> 's \<Rightarrow> error + 's) \<Rightarrow> 'a list \<Rightarrow> 's \<Rightarrow> error + 's" where
  \<comment> \<open>a loop whose body may raise; the exception ends the loop\<close>
  "forEach f [] s = Inr s"
| "forEach f (x # xs) s = (case f x s of Inl e \<Rightarrow> Inl e | Inr s' \<Rightarrow> forEach f xs s')"

definition calculateWeeklyScans :: "(string \<Rightarrow> date) \<Rightarrow> int \<Rightarrow> scanData list \<Rightarrow> error + jsarray" where
  "calculateWeeklyScans parse now scans =
     (if length scans = 0 then Inr [Some (Num 2), Some (Num 5), Some (Num 8), Some (Num 12)]
      else (case forEach (weeklyEach parse now) scans
                   [Some (Num 0), Some (Num 0), Some (Num 0), Some (Num 0)] of
              Inl e \<Rightarrow> Inl e
            | Inr weeklyData \<Rightarrow> Inr (map (map_option mathMax1) weeklyData)))"

subsection \<open>The document store\<close>

record userData =
  email :: "string option"

text \<open>A collection is the list of its documents, each an id and its data. Every request to
  the store or to the identity provider may be rejected; which one is, is a parameter
  \<open>fails\<close> of the handlers.\<close>

record store =
  users :: "(string \<times> userData) list"
  subcollection :: "string \<Rightarrow> string \<Rightarrow> (string \<times> docData) list"
    \<comment> \<open>by user id and name, \<^verbatim>\<open>shelf\<close> or \<^verbatim>\<open>history\<close>\<close>
  authUsers :: "string list"

datatype request =
    ListUsers
  | GetUserDoc string
  | GetCollection string string
  | DeleteDoc string string string
  | DeleteUserDoc string
  | AuthDeleteUser string

definition removeDoc :: "string \<Rightarrow> (string \<times> 'a) list \<Rightarrow> (string \<times> 'a) list" where
  "removeDoc d docs = filter (\<lambda>p. fst p \<noteq> d) docs"

subsection \<open>GET /api/dashboard/stats\<close>

record activity =
  user :: string
  action :: string
  time :: string
  type :: "string option"

record totals =
  totalScans :: nat
  totalShelfItems :: nat
  totalHistoryItems :: nat
  userActivities :: "activity list"
  allScans :: "scanData list"

fun forEachTry :: "('a \<Rightarrow> 's \<Rightarrow> 's \<times> error option) \<Rightarrow> 'a list \<Rightarrow> 's \<Rightarrow> 's \<times> error option" where
  \<comment> \<open>a loop over variables of the enclosing scope: what the body changed before it raised
     stays changed\<close>
  "forEachTry f [] s = (s, None)"
| "forEachTry f (x # xs) s =
     (case f x s of (s', Some e) \<Rightarrow> (s', Some e) | (s', None) \<Rightarrow> forEachTry f xs s')"

definition shelfEach ::
  "(string \<Rightarrow> date) \<Rightarrow> int \<Rightarrow> string \<Rightarrow> userData \<Rightarrow> string \<times> docData \<Rightarrow> totals \<Rightarrow> totals \<times> error option" where
  \<comment> \<open>the body of \<^verbatim>\<open>shelfSnapshot.forEach\<close>; the fields of \<^verbatim>\<open>scanData\<close> that nothing reads
     are left out\<close>
  "shelfEach parse now uid ud doc a =
     (let shelfItem = snd doc;
          scanName = orString (name shelfItem) ''Unknown Papaya'';
          scanFreshness = orString (freshness shelfItem) ''Unknown'';
          scan = \<lparr>name = Some scanName,
                  freshness = Some scanFreshness,
                  harvestedDate = orElse (harvestedDate shelfItem) Nullish,
                  scannedDate = orElse (scannedDate shelfItem) Nullish,
                  addedAt = orElse (addedAt shelfItem) Nullish,
                  archivedAt = orElse (archivedAt shelfItem) Nullish,
                  scanId = fst doc,
                  userId = uid,
                  userEmail = orString (email ud) ''Unknown''\<rparr>;
          a1 = a\<lparr>allScans := allScans a @ [scan]\<rparr>
      in case formatTimeAgo parse now (orElse (scannedDate scan) (addedAt scan)) of
           Inl e \<Rightarrow> (a1, Some e)
         | Inr t \<Rightarrow>
             (a1\<lparr>userActivities := userActivities a1 @
                   [\<lparr>user = orString (email ud) (''User '' @ take 8 uid),
                     action = ''Scanned '' @ scanName @ '' - '' @ scanFreshness,
                     time = t,
                     type = Some ''scan''\<rparr>]\<rparr>, None))"

definition historyEach ::
  "(string \<Rightarrow> date) \<Rightarrow> int \<Rightarrow> string \<Rightarrow> userData \<Rightarrow> string \<times> docData \<Rightarrow> totals \<Rightarrow> totals \<times> error option" where
  \<comment> \<open>the body of \<^verbatim>\<open>historySnapshot.forEach\<close>\<close>
  "historyEach parse now uid ud doc a =
     (let historyItem = snd doc
      in case formatTimeAgo parse now (orElse (scannedDate historyItem) (archivedAt historyItem)) of
           Inl e \<Rightarrow> (a, Some e)
         | Inr t \<Rightarrow>
             (a\<lparr>userActivities := userActivities a @
                  [\<lparr>user = orString (email ud) (''User '' @ take 8 uid),
                    action = ''History: '' @ orString (name historyItem) ''Activity'',
                    time = t,
                    type = Some ''history''\<rparr>]\<rparr>, None))"

definition processUser ::
  "(request \<Rightarrow> bool) \<Rightarrow> store \<Rightarrow> (string \<Rightarrow> date) \<Rightarrow> int \<Rightarrow> string \<times> userData \<Rightarrow> totals \<Rightarrow> totals" where
  \<comment> \<open>one round of the loop over \<^verbatim>\<open>usersSnapshot.docs\<close>: the \<^verbatim>\<open>try\<close>, whose \<^verbatim>\<open>catch\<close> only logs\<close>
  "processUser fails st parse now userDoc a =
     (let uid = fst userDoc; ud = snd userDoc
      in if fails (GetCollection uid ''shelf'') then a
         else
           let shelfSnapshot = subcollection st uid ''shelf'';
               userShelfCount = length shelfSnapshot;
               a1 = a\<lparr>totalShelfItems := totalShelfItems a + userShelfCount\<rparr>
           in if fails (GetCollection uid ''history'') then a1
              else
                let historySnapshot = subcollection st uid ''history'';
                    userHistoryCount = length historySnapshot;
                    a2 = a1\<lparr>totalHistoryItems := totalHistoryItems a1 + userHistoryCount\<rparr>
                in case forEachTry (shelfEach parse now uid ud) shelfSnapshot a2 of
                     (a3, Some e) \<Rightarrow> a3
                   | (a3, None) \<Rightarrow>
                       (case forEachTry (historyEach parse now uid ud) historySnapshot a3 of
                          (a4, Some e) \<Rightarrow> a4
                        | (a4, None) \<Rightarrow>
                            a4\<lparr>totalScans := totalScans a4 + (userShelfCount + userHistoryCount)\<rparr>))"

record summary =
  totalUsers :: nat
  newUsers :: nat
  responseTotalScans :: nat
    \<comment> \<open>the key \<^verbatim>\<open>totalScans\<close>\<close>
  papayasOnShelf :: nat
  ripenessDistribution :: distribution
  weeklyScans :: jsarray
  recentActivities :: "activity list"
  activeUsers :: nat
  statsTotalShelfItems :: nat
    \<comment> \<open>the key \<^verbatim>\<open>userStats.totalShelfItems\<close>\<close>
  statsTotalHistoryItems :: nat
    \<comment> \<open>the key \<^verbatim>\<open>userStats.totalHistoryItems\<close>\<close>

datatype dashboardResponse = Ok200 summary | Fallback500

definition dashboardStats ::
  "(request \<Rightarrow> bool) \<Rightarrow> store \<Rightarrow> (string \<Rightarrow> date) \<Rightarrow> int \<Rightarrow> dashboardResponse" where
  \<comment> \<open>The handler. The comparison function of the sort reads a key \<^verbatim>\<open>timestamp\<close> that no
     activity has, so it returns NaN on every pair, which the sort takes as 0: the stable
     sort keeps the order. \<^verbatim>\<open>Math.floor(totalUsers * 0.2)\<close> is \<open>totalUsers div 5\<close>. The key
     \<^verbatim>\<open>averageScansPerUser\<close>, a formatted quotient, and the debug keys are left out. The
     clock is read once.\<close>
  "dashboardStats fails st parse now =
     (if fails ListUsers then Fallback500
      else
        let usersSnapshot = users st;
            a = fold (processUser fails st parse now) usersSnapshot
                  \<lparr>totalScans = 0, totalShelfItems = 0, totalHistoryItems = 0,
                   userActivities = [], allScans = []\<rparr>;
            usersCount = length usersSnapshot;
            distribution = calculateFreshnessDistribution (allScans a)
        in case calculateWeeklyScans parse now (allScans a) of
             Inl e \<Rightarrow> Fallback500
           | Inr weekly \<Rightarrow>
               (let recent = take 6 (userActivities a)
                in Ok200
                    \<lparr>totalUsers = usersCount,
                     newUsers = max 1 (usersCount div 5),
                     responseTotalScans = totalScans a,
                     papayasOnShelf = totalShelfItems a,
                     ripenessDistribution = distribution,
                     weeklyScans = weekly,
                     recentActivities =
                       (if length recent > 0 then recent
                        else [\<lparr>user = ''No activity yet'', action = ''Waiting for user scans'',
                               time = ''Just now'', type = None\<rparr>]),
                     activeUsers = length (userActivities a),
                     statsTotalShelfItems = totalShelfItems a,
                     statsTotalHistoryItems = totalHistoryItems a\<rparr>))"

subsection \<open>DELETE /api/users/delete/:userId\<close>


fun deleteAll ::
  "(request \<Rightarrow> bool) \<Rightarrow> string \<Rightarrow> string \<Rightarrow> string list \<Rightarrow> store \<Rightarrow> request list \<Rightarrow> bool
     \<Rightarrow> store \<times> request list \<times> bool" where
  \<comment> \<open>\<^verbatim>\<open>Promise.all\<close> over the deletions of a snapshot's documents: every deletion is
     issued; the result is the store, the deletions done and whether all were\<close>
  "deleteAll fails uid coll [] st log ok = (st, log, ok)"
| "deleteAll fails uid coll (d # ds) st log ok =
     (if fails (DeleteDoc uid coll d) then deleteAll fails uid coll ds st log False
      else deleteAll fails uid coll ds
             (st\<lparr>subcollection :=
                   (subcollection st)(uid := (subcollection st uid)
                      (coll := removeDoc d (subcollection st uid coll)))\<rparr>)
             (log @ [DeleteDoc uid coll d]) ok)"


section \<open>The specification's notions\<close>

text \<open>The triggers of the freshness rules, as the specification words them: a label
  \<^emph>\<open>contains\<close> a word when the word is a contiguous part of it.\<close>

definition unripeTrigger :: "string \<Rightarrow> bool" where
  "unripeTrigger l = (sublist ''unripe'' l \<or> l = ''green'' \<or> sublist ''early'' l)"

definition overripeTrigger :: "string \<Rightarrow> bool" where
  "overripeTrigger l = (sublist ''overripe'' l \<or> l = ''rotten'' \<or> sublist ''late'' l)"

text \<open>The relative-time label of a number of elapsed minutes, as the specification
  tabulates it.\<close>

definition relativeLabel :: "int \<Rightarrow> string" where
  "relativeLabel m =
     (if m < 1 then ''Just now''
      else if m < 60 then numberToString m @ '' mins ago''
      else if m < 1440 then numberToString (m div 60) @ '' hr ago''
      else numberToString (m div 1440) @ '' days ago'')"

text \<open>The instant a timestamp denotes, by the representations the specification lists:
  none for an absent value; the decoder's date for an object with a decode-to-date
  capability (none when decoding fails); the parsed date for a string; a thousand times the
  \<^verbatim>\<open>seconds\<close> field for an object with a numeric \<^verbatim>\<open>seconds\<close> field, whatever the number. For
  the values the specification does not list (a number, any other object) it is the date
  \<^verbatim>\<open>Date\<close> makes of them, none when that fails.\<close>

fun decodedInstant :: "(string \<Rightarrow> date) \<Rightarrow> jsvalue \<Rightarrow> int option" where
  "decodedInstant parse Nullish = None"
| "decodedInstant parse (JString s) = parse s"
| "decodedInstant parse (JNumber n) = timeClip n"
| "decodedInstant parse (JObject ob) =
     (case toDate ob of
        Some (Inl e) \<Rightarrow> None
      | Some (Inr d) \<Rightarrow> d
      | None \<Rightarrow>
          (case seconds ob of
             Some s \<Rightarrow> timeClip (s * 1000)
           | None \<Rightarrow>
               (case newDate parse (JObject ob) of Inl e \<Rightarrow> None | Inr d \<Rightarrow> d)))"

fun zeroSeconds :: "jsvalue \<Rightarrow> bool" where
  \<comment> \<open>an object without decoder whose \<^verbatim>\<open>seconds\<close> field is the number 0\<close>
  "zeroSeconds (JObject ob) = (toDate ob = None \<and> seconds ob = Some 0)"
| "zeroSeconds _ = False"

section \<open>Sample inputs\<close>

definition storeTimestamp :: "int \<Rightarrow> jsvalue" where
  \<comment> \<open>a timestamp of the store: its \<^verbatim>\<open>toDate\<close> returns the date\<close>
  "storeTimestamp t =
     JObject \<lparr>toDate = Some (Inr (Some t)), seconds = Some (t div 1000),
              conversion = ToString ''Timestamp''\<rparr>"

definition epochSeconds :: "int \<Rightarrow> jsvalue" where
  \<comment> \<open>a plain object with a \<^verbatim>\<open>seconds\<close> field\<close>
  "epochSeconds s =
     JObject \<lparr>toDate = None, seconds = Some s, conversion = ToString ''[object Object]''\<rparr>"


definition dateInstance :: "int \<Rightarrow> jsvalue" where
  \<comment> \<open>a \<^verbatim>\<open>Date\<close> instance\<close>
  "dateInstance t = JObject \<lparr>toDate = None, seconds = None, conversion = DateInstance (Some t)\<rparr>"

definition noParse :: "string \<Rightarrow> date" where
  \<comment> \<open>a \<^verbatim>\<open>Date.parse\<close> that reads no string as a date\<close>
  "noParse s = None"

definition sampleScan :: "string \<Rightarrow> jsvalue \<Rightarrow> scanData" where
  \<comment> \<open>a scan record with a freshness label and a scanned date\<close>
  "sampleScan fr d =
     \<lparr>name = Some ''Papaya'', freshness = Some fr, harvestedDate = Nullish, scannedDate = d,
      addedAt = Nullish, archivedAt = Nullish, scanId = ''s1'', userId = ''u1'',
      userEmail = ''a@b.c''\<rparr>"

definition sampleDoc :: "string \<Rightarrow> string \<Rightarrow> jsvalue \<Rightarrow> docData" where
  "sampleDoc n fr d =
     \<lparr>name = Some n, freshness = Some fr, harvestedDate = Nullish, scannedDate = d,
      addedAt = Nullish, archivedAt = Nullish\<rparr>"

definition oneUserStore :: store where
  \<comment> \<open>one user with two shelf documents and no history\<close>
  "oneUserStore =
     \<lparr>users = [(''u1'', \<lparr>email = Some ''ana@example.org''\<rparr>)],
      subcollection = (\<lambda>uid coll.
        if uid = ''u1'' \<and> coll = ''shelf''
        then [(''d1'', sampleDoc ''Papaya A'' ''green'' (storeTimestamp 1699997300000)),
              (''d2'', sampleDoc ''Papaya B'' ''rotten'' (storeTimestamp 1699989200000))]
        else []),
      authUsers = [''u1'']\<rparr>"

definition twoUserStore :: store where
  \<comment> \<open>\<^verbatim>\<open>u0\<close> has one shelf and one history document, \<^verbatim>\<open>u1\<close> three shelf documents\<close>
  "twoUserStore =
     \<lparr>users = [(''u0'', \<lparr>email = Some ''bo@example.org''\<rparr>), (''u1'', \<lparr>email = None\<rparr>)],
      subcollection = (\<lambda>uid coll.
        if uid = ''u0'' \<and> coll = ''shelf''
          then [(''a1'', sampleDoc ''Papaya C'' ''ripe'' (storeTimestamp 1699997300000))]
        else if uid = ''u0'' \<and> coll = ''history''
          then [(''h1'', sampleDoc ''Papaya D'' ''late'' (storeTimestamp 1699568000000))]
        else if uid = ''u1'' \<and> coll = ''shelf''
          then [(''d1'', sampleDoc ''Papaya A'' ''green'' (storeTimestamp 1699997300000)),
                (''d2'', sampleDoc ''Papaya B'' ''rotten'' (storeTimestamp 1699989200000)),
                (''d3'', sampleDoc ''Papaya E'' ''ripe'' Nullish)]
        else []),
      authUsers = [''u0'', ''u1'']\<rparr>"

definition historyOfU1Fails :: "request \<Rightarrow> bool" where
  \<comment> \<open>the store rejects the read of the history of \<^verbatim>\<open>u1\<close> and nothing else\<close>
  "historyOfU1Fails r = (r = GetCollection ''u1'' ''history'')"

definition noFailure :: "request \<Rightarrow> bool" where
  "noFailure r = False"

section \<open>Weekly counts in range\<close>

fun isCount :: "jsnumber option \<Rightarrow> bool" where
  "isCount (Some (Num n)) = (0 \<le> n)"
| "isCount _ = False"

fun atLeastOne :: "jsnumber option \<Rightarrow> bool" where
  "atLeastOne (Some (Num n)) = (1 \<le> n)"
| "atLeastOne _ = False"

definition countsOnly :: "jsarray \<Rightarrow> bool" where
  \<comment> \<open>four slots, each a count\<close>
  "countsOnly w = (length w = 4 \<and> list_all isCount w)"

definition anchorNotAfter :: "(string \<Rightarrow> date) \<Rightarrow> int \<Rightarrow> scanData \<Rightarrow> bool" where
  \<comment> \<open>the anchor date of the record, when it has a valid one, is not after \<open>now\<close>\<close>
  "anchorNotAfter parse now scan =
     (let scanDate = orElse (orElse (scannedDate scan) (addedAt scan)) (harvestedDate scan)
      in case (if hasToDate scanDate then callToDate scanDate else newDate parse scanDate) of
           Inr (Some t) \<Rightarrow> t \<le> now
         | _ \<Rightarrow> True)"

section \<open>The freshness classifier\<close>

lemma strIncludes_sublist: "strIncludes s sub \<longleftrightarrow> sublist sub s"
  by (induction s) (auto simp: sublist_Cons_right)

text \<open>
  Claim C5. On the lower-cased label (the empty string for an absent one) the rules apply in
  order and the first match wins: a label with an unripe trigger is classified unripe
  whether or not it has an overripe trigger too; a label with an overripe trigger and no
  unripe trigger is classified overripe; a label with neither is classified ripe, as are
  the absent label, the empty label, \<^verbatim>\<open>Unknown\<close> and \<^verbatim>\<open>fully ripe\<close>.
\<close>

theorem classify_first_match:
  "(unripeTrigger (toLowerCase (orEmpty fr)) \<longrightarrow> classify fr = Unripe)
   \<and> (\<not> unripeTrigger (toLowerCase (orEmpty fr)) \<and> overripeTrigger (toLowerCase (orEmpty fr))
        \<longrightarrow> classify fr = Overripe)
   \<and> (\<not> unripeTrigger (toLowerCase (orEmpty fr)) \<and> \<not> overripeTrigger (toLowerCase (orEmpty fr))
        \<longrightarrow> classify fr = Ripe)
   \<and> classify None = Ripe \<and> classify (Some []) = Ripe
   \<and> classify (Some ''Unknown'') = Ripe \<and> classify (Some ''fully ripe'') = Ripe
   \<and> classify (Some ''Green'') = Unripe \<and> classify (Some ''ROTTEN'') = Overripe"
proof -
  have ex: "classify None = Ripe" "classify (Some []) = Ripe"
    "classify (Some ''Unknown'') = Ripe" "classify (Some ''fully ripe'') = Ripe"
    "classify (Some ''Green'') = Unripe" "classify (Some ''ROTTEN'') = Overripe"
    by code_simp+
  show ?thesis
    using ex
    by (simp add: classify_def Let_def unripeTrigger_def overripeTrigger_def strIncludes_sublist)
qed

theorem classify_first_match_witness:
  "unripeTrigger (toLowerCase (orEmpty (Some ''Late and EARLY'')))
   \<and> overripeTrigger (toLowerCase (orEmpty (Some ''Late and EARLY'')))
   \<and> classify (Some ''Late and EARLY'') = Unripe"
proof -
  have l: "toLowerCase (orEmpty (Some ''Late and EARLY'')) = ''late and early''"
    by code_simp
  have u: "unripeTrigger (toLowerCase (orEmpty (Some ''Late and EARLY'')))"
    unfolding l by (simp add: unripeTrigger_def strIncludes_sublist [symmetric])
  have ov: "overripeTrigger (toLowerCase (orEmpty (Some ''Late and EARLY'')))"
    unfolding l by (simp add: overripeTrigger_def strIncludes_sublist [symmetric])
  from u ov classify_first_match [of "Some ''Late and EARLY''"] show ?thesis
    by blast
qed

section \<open>The freshness distribution\<close>

lemma fold_countScan_total:
  "unripe (fold countScan scans d) + ripe (fold countScan scans d) + overripe (fold countScan scans d)
     = unripe d + ripe d + overripe d + length scans"
proof (induction scans arbitrary: d)
  case Nil
  show ?case by simp
next
  case (Cons s scans)
  have "unripe (countScan s d) + ripe (countScan s d) + overripe (countScan s d)
          = unripe d + ripe d + overripe d + 1"
    by (simp add: countScan_def split: bucket.split)
  with Cons.IH [of "countScan s d"] show ?case by simp
qed

lemma tally_total:
  "unripe (tally scans) + ripe (tally scans) + overripe (tally scans) = length scans"
  using fold_countScan_total [of scans "\<lparr>unripe = 0, ripe = 0, overripe = 0\<rparr>"]
  by (simp add: tally_def)

lemma tally_zero_iff:
  "(unripe (tally scans) = 0 \<and> ripe (tally scans) = 0 \<and> overripe (tally scans) = 0)
     \<longleftrightarrow> scans = []"
  using tally_total [of scans] by auto

text \<open>
  Claim C10. The loop of \<^verbatim>\<open>calculateFreshnessDistribution\<close> counts every record in exactly
  one bucket: the three counts add up to the number of records. So the three counts are all
  zero, the condition of the fallback \<open>{unripe: 1, ripe: 1, overripe: 1}\<close>, exactly when the
  list is empty; on a list that is not empty the function returns the counts, which add up
  to the number of records.
\<close>

theorem calculateFreshnessDistribution_partition:
  "unripe (tally scans) + ripe (tally scans) + overripe (tally scans) = length scans
   \<and> ((unripe (tally scans) = 0 \<and> ripe (tally scans) = 0 \<and> overripe (tally scans) = 0)
        \<longleftrightarrow> scans = [])
   \<and> (scans \<noteq> [] \<longrightarrow>
        calculateFreshnessDistribution scans = tally scans
        \<and> unripe (calculateFreshnessDistribution scans) + ripe (calculateFreshnessDistribution scans)
            + overripe (calculateFreshnessDistribution scans) = length scans)
   \<and> calculateFreshnessDistribution [] = \<lparr>unripe = 1, ripe = 1, overripe = 1\<rparr>"
proof -
  have a: "scans \<noteq> [] \<Longrightarrow> calculateFreshnessDistribution scans = tally scans"
    using tally_zero_iff [of scans] by (auto simp: calculateFreshnessDistribution_def Let_def)
  have b: "calculateFreshnessDistribution [] = \<lparr>unripe = 1, ripe = 1, overripe = 1\<rparr>"
    by (simp add: calculateFreshnessDistribution_def tally_def)
  show ?thesis using a b tally_total [of scans] tally_zero_iff [of scans] by auto
qed

theorem calculateFreshnessDistribution_partition_witness:
  "[sampleScan ''green'' Nullish, sampleScan ''rotten'' Nullish] \<noteq> []
   \<and> calculateFreshnessDistribution [sampleScan ''green'' Nullish, sampleScan ''rotten'' Nullish]
       = \<lparr>unripe = 1, ripe = 0, overripe = 1\<rparr>
   \<and> unripe (calculateFreshnessDistribution [sampleScan ''green'' Nullish, sampleScan ''rotten'' Nullish])
       + ripe (calculateFreshnessDistribution [sampleScan ''green'' Nullish, sampleScan ''rotten'' Nullish])
       + overripe (calculateFreshnessDistribution [sampleScan ''green'' Nullish, sampleScan ''rotten'' Nullish])
       = 2"
proof -
  have t: "tally [sampleScan ''green'' Nullish, sampleScan ''rotten'' Nullish]
             = \<lparr>unripe = 1, ripe = 0, overripe = 1\<rparr>"
    by code_simp
  from t calculateFreshnessDistribution_partition
           [of "[sampleScan ''green'' Nullish, sampleScan ''rotten'' Nullish]"]
  show ?thesis by simp
qed

section \<open>The relative-time label\<close>

lemma formatTimeAgoTry_label:
  "formatTimeAgoTry parse now ts =
     (case activityTime parse ts of
        Inl e \<Rightarrow> Inl e
      | Inr None \<Rightarrow> Inr ''Recent''
      | Inr (Some t) \<Rightarrow> Inr (relativeLabel ((now - t) div 60000)))"
  by (simp add: formatTimeAgoTry_def relativeLabel_def Let_def split: sum.split option.split)

lemma activityTime_decoded:
  "truthy ts \<Longrightarrow> \<not> zeroSeconds ts \<Longrightarrow>
     decodedInstant parse ts = (case activityTime parse ts of Inl e \<Rightarrow> None | Inr d \<Rightarrow> d)"
  by (cases ts) (auto simp: activityTime_def split: option.split sum.split)

text \<open>On every input that is absent or truthy, but for an object whose \<^verbatim>\<open>seconds\<close> field is
  0, \<^verbatim>\<open>formatTimeAgo\<close> returns \<^verbatim>\<open>Recent\<close> when the input denotes no valid instant and
  otherwise the label of the elapsed minutes \<open>floor ((now - instant) / 60000)\<close>.\<close>

lemma formatTimeAgo_agrees:
  assumes "truthy ts \<or> ts = Nullish" and "\<not> zeroSeconds ts"
  shows "formatTimeAgo parse now ts =
     Inr (case decodedInstant parse ts of
            None \<Rightarrow> ''Recent''
          | Some t \<Rightarrow> relativeLabel ((now - t) div 60000))"
proof (cases "truthy ts")
  case False
  with assms(1) have "ts = Nullish" by simp
  then show ?thesis by (simp add: formatTimeAgo_def)
next
  case True
  show ?thesis
    using True formatTimeAgoTry_label [of parse now ts]
      activityTime_decoded [OF True assms(2), of parse]
    by (simp add: formatTimeAgo_def split: sum.split option.split)
qed

lemma formatTimeAgo_examples:
  "formatTimeAgo noParse 1700000000000 Nullish = Inr ''Recent''
   \<and> formatTimeAgo noParse 1700000000000 (epochSeconds 1699999970) = Inr ''Just now''
   \<and> formatTimeAgo noParse 1700000000000 (storeTimestamp 1699997300000) = Inr ''45 mins ago''
   \<and> formatTimeAgo noParse 1700000000000 (storeTimestamp 1699989200000) = Inr ''3 hr ago''
   \<and> formatTimeAgo noParse 1700000000000 (storeTimestamp 1699568000000) = Inr ''5 days ago''
   \<and> formatTimeAgo noParse 1700000000000 (JString ''not-a-date'') = Inr ''Recent''
   \<and> formatTimeAgo noParse 1700000000000 (dateInstance 1699999940001) = Inr ''Just now''"
proof -
  have l: "relativeLabel 0 = ''Just now''" "relativeLabel 45 = ''45 mins ago''"
    "relativeLabel 180 = ''3 hr ago''" "relativeLabel 7200 = ''5 days ago''"
    by code_simp+
  show ?thesis
    by (simp add: formatTimeAgo_agrees epochSeconds_def storeTimestamp_def dateInstance_def
          noParse_def timeClip_def l)
qed

lemma digit_chars:
  "char_of (49 :: nat) = CHR ''1''" "char_of (53 :: nat) = CHR ''5''"
  "char_of (54 :: nat) = CHR ''6''" "char_of (55 :: nat) = CHR ''7''"
  "char_of (57 :: nat) = CHR ''9''"
  by code_simp+

lemma digitsOf_1: "digitsOf (Suc 0) = ''1''"
  by code_simp

lemma digitsOf_19675: "digitsOf 19675 = ''19675''"
  by (simp add: digitsOf.simps [of 19675] digitsOf.simps [of 1967] digitsOf.simps [of 196]
        digitsOf.simps [of 19] digitsOf_1 digit_chars)

text \<open>
  Claim C6. The claim: for every timestamp, \<^verbatim>\<open>formatTimeAgo\<close> returns \<^verbatim>\<open>Recent\<close> for an
  absent or unparseable input and otherwise the label of the elapsed minutes. The code
  tests \<^verbatim>\<open>timestamp.seconds\<close> for truthiness: an epoch-seconds object whose \<^verbatim>\<open>seconds\<close> is 0
  denotes the epoch, \<open>28333333\<close> minutes before \<open>now = 1700000000000\<close>, whose label is
  \<^verbatim>\<open>19675 days ago\<close>; the code skips the branch, hands the object itself to \<^verbatim>\<open>Date\<close>, gets an
  invalid date and returns \<^verbatim>\<open>Recent\<close>.
\<close>

theorem formatTimeAgo_seconds_zero:
  "formatTimeAgo noParse 1700000000000 (epochSeconds 0) = Inr ''Recent''
   \<and> decodedInstant noParse (epochSeconds 0) = Some 0
   \<and> relativeLabel ((1700000000000 - 0) div 60000) = ''19675 days ago''"
proof -
  have a: "formatTimeAgo noParse 1700000000000 (epochSeconds 0) = Inr ''Recent''"
    by (simp add: formatTimeAgo_def formatTimeAgoTry_def activityTime_def epochSeconds_def
          noParse_def)
  have b: "decodedInstant noParse (epochSeconds 0) = Some 0"
    by (simp add: epochSeconds_def timeClip_def)
  have c: "relativeLabel ((1700000000000 - 0) div 60000) = ''19675 days ago''"
    by (simp add: relativeLabel_def numberToString_def digitsOf_19675)
  from a b c show ?thesis by simp
qed



text \<open>
  Claim C9. A timestamp that decodes to an instant strictly after the current time is
  labelled \<^verbatim>\<open>Just now\<close>: the elapsed minutes are negative, so below 1.
\<close>

theorem formatTimeAgo_future:
  "truthy ts \<Longrightarrow> activityTime parse ts = Inr (Some t) \<Longrightarrow> now < t
     \<Longrightarrow> formatTimeAgo parse now ts = Inr ''Just now''"
proof -
  assume tr: "truthy ts" and at: "activityTime parse ts = Inr (Some t)" and fut: "now < t"
  from fut have "now - t < 0" by simp
  then have "(now - t) div 60000 < 0" by (rule div_neg_pos_less0) simp
  then have "(now - t) div 60000 < 1" by simp
  with tr at show ?thesis
    by (simp add: formatTimeAgo_def formatTimeAgoTry_def Let_def)
qed

theorem formatTimeAgo_future_witness:
  "truthy (storeTimestamp 1700000060001)
   \<and> activityTime noParse (storeTimestamp 1700000060001) = Inr (Some 1700000060001)
   \<and> (1700000000000 :: int) < 1700000060001
   \<and> formatTimeAgo noParse 1700000000000 (storeTimestamp 1700000060001) = Inr ''Just now''"
proof -
  have a: "truthy (storeTimestamp 1700000060001)" by (simp add: storeTimestamp_def)
  have b: "activityTime noParse (storeTimestamp 1700000060001) = Inr (Some 1700000060001)"
    by (simp add: storeTimestamp_def activityTime_def)
  have c: "(1700000000000 :: int) < 1700000060001" by simp
  from a b c formatTimeAgo_future [OF a b c] show ?thesis by blast
qed

section \<open>The weekly buckets\<close>

lemma calculateWeeklyScans_empty:
  "calculateWeeklyScans parse now [] = Inr [Some (Num 2), Some (Num 5), Some (Num 8), Some (Num 12)]"
  by (simp add: calculateWeeklyScans_def)

lemma calculateWeeklyScans_four_weeks:
  "calculateWeeklyScans parse 1700000000000
     [sampleScan ''ripe'' (storeTimestamp 1700000000000),
      sampleScan ''ripe'' (storeTimestamp (1700000000000 - 8 * 86400000)),
      sampleScan ''ripe'' (storeTimestamp (1700000000000 - 15 * 86400000)),
      sampleScan ''ripe'' (storeTimestamp (1700000000000 - 22 * 86400000))]
     = Inr [Some (Num 1), Some (Num 1), Some (Num 1), Some (Num 1)]"
  by (simp add: calculateWeeklyScans_def weeklyEach_def sampleScan_def storeTimestamp_def
        orElse_def incrementAt_def Let_def)

text \<open>
  Claim C1. The claim: a record whose \<open>diffWeeks\<close> is outside \<open>[0, 4)\<close>, in particular one
  whose anchor date is in the future, is counted in no bucket, and the result always has
  exactly 4 integer entries. The loop tests \<^verbatim>\<open>diffWeeks < 4\<close> only: for a record scanned one
  day after \<open>now\<close>, \<open>diffWeeks\<close> is \<open>-1\<close>, the loop increments the slot of index 4, which the
  array does not have, and the result has 5 entries, the last one NaN.
\<close>

theorem calculateWeeklyScans_future_anchor:
  "calculateWeeklyScans parse 1700000000000 [sampleScan ''ripe'' (storeTimestamp 1700086400000)]
     = Inr [Some (Num 1), Some (Num 1), Some (Num 1), Some (Num 1), Some NaN]"
  by (simp add: calculateWeeklyScans_def weeklyEach_def sampleScan_def storeTimestamp_def
        orElse_def incrementAt_def Let_def)

text \<open>
  Claim C4. The claim: the empty collection gives the placeholder \<open>[2, 5, 8, 12]\<close>, and on a
  collection that is not empty every returned bucket is at least 1. The first half holds
  (\<open>calculateWeeklyScans_empty\<close>). For a record scanned now and one scanned three weeks after
  \<open>now\<close>, the result has 7 slots: two holes and a NaN follow the four counts, and
  \<^verbatim>\<open>Math.max(1, NaN)\<close> is NaN.
\<close>

theorem calculateWeeklyScans_floor_future:
  "calculateWeeklyScans parse 1700000000000
     [sampleScan ''ripe'' (storeTimestamp 1700000000000),
      sampleScan ''ripe'' (storeTimestamp 1701814400000)]
     = Inr [Some (Num 1), Some (Num 1), Some (Num 1), Some (Num 1), None, None, Some NaN]"
  by (simp add: calculateWeeklyScans_def weeklyEach_def sampleScan_def storeTimestamp_def
        orElse_def incrementAt_def Let_def numeral_2_eq_2)

text \<open>Where no record has an anchor date after \<open>now\<close>, both claims hold of every result the
  function returns: four entries, each a count of at least 1.\<close>

lemma isCount_increment: "isCount x \<Longrightarrow> isCount (Some (increment x))"
  by (cases x rule: isCount.cases) simp_all

lemma isCount_mathMax1: "isCount x \<Longrightarrow> atLeastOne (map_option mathMax1 x)"
  by (cases x rule: isCount.cases) simp_all

lemma incrementAt_countsOnly:
  "countsOnly w \<Longrightarrow> i < 4 \<Longrightarrow> countsOnly (incrementAt w i)"
proof -
  assume w: "countsOnly w" and i: "i < 4"
  from w have len: "length w = 4" by (simp add: countsOnly_def)
  from w i len have "isCount (w ! i)"
    by (simp add: countsOnly_def list_all_length)
  then have "isCount (Some (increment (w ! i)))" by (rule isCount_increment)
  with w i len show ?thesis
    by (auto simp: countsOnly_def incrementAt_def list_all_length nth_list_update)
qed

lemma weeklyEach_countsOnly:
  assumes "countsOnly w" and "anchorNotAfter parse now scan"
    and "weeklyEach parse now scan w = Inr w'"
  shows "countsOnly w'"
proof -
  let ?d = "orElse (orElse (scannedDate scan) (addedAt scan)) (harvestedDate scan)"
  let ?r = "if hasToDate ?d then callToDate ?d else newDate parse ?d"
  show ?thesis
  proof (cases "truthy ?d")
    case False
    with assms show ?thesis by (simp add: weeklyEach_def Let_def)
  next
    case True
    show ?thesis
    proof (cases ?r)
      case (Inl e)
      with True assms(3) show ?thesis by (simp add: weeklyEach_def Let_def)
    next
      case (Inr d)
      show ?thesis
      proof (cases d)
        case None
        with True Inr assms show ?thesis by (simp add: weeklyEach_def Let_def)
      next
        case (Some t)
        with Inr assms(2) have le: "t \<le> now" by (simp add: anchorNotAfter_def Let_def)
        then have nonneg: "0 \<le> (now - t) div 604800000"
          by (simp add: pos_imp_zdiv_nonneg_iff)
        show ?thesis
        proof (cases "(now - t) div 604800000 < 4")
          case False
          with True Inr Some assms show ?thesis by (simp add: weeklyEach_def Let_def)
        next
          case lt: True
          from nonneg have "nat (3 - (now - t) div 604800000) < 4" by simp
          from incrementAt_countsOnly [OF assms(1) this] True Inr Some lt assms(3)
          show ?thesis by (simp add: weeklyEach_def Let_def)
        qed
      qed
    qed
  qed
qed

lemma forEach_weeklyEach_countsOnly:
  "countsOnly w \<Longrightarrow> list_all (anchorNotAfter parse now) scans
     \<Longrightarrow> forEach (weeklyEach parse now) scans w = Inr w' \<Longrightarrow> countsOnly w'"
proof (induction scans arbitrary: w)
  case Nil
  then show ?case by simp
next
  case (Cons s scans)
  from Cons.prems(3) obtain w1 where w1: "weeklyEach parse now s w = Inr w1"
    and rest: "forEach (weeklyEach parse now) scans w1 = Inr w'"
    by (auto split: sum.splits)
  from Cons.prems(1,2) w1 have "countsOnly w1"
    by (auto intro: weeklyEach_countsOnly)
  with Cons.IH [of w1] Cons.prems(2) rest show ?case by simp
qed

lemma calculateWeeklyScans_floored:
  assumes "list_all (anchorNotAfter parse now) scans"
    and "calculateWeeklyScans parse now scans = Inr r"
  shows "length r = 4 \<and> list_all atLeastOne r"
proof (cases "scans = []")
  case True
  with assms(2) show ?thesis by (auto simp: calculateWeeklyScans_def)
next
  case False
  with assms(2) obtain w where w:
    "forEach (weeklyEach parse now) scans [Some (Num 0), Some (Num 0), Some (Num 0), Some (Num 0)] = Inr w"
    and r: "r = map (map_option mathMax1) w"
    by (auto simp: calculateWeeklyScans_def split: sum.splits)
  have "countsOnly [Some (Num 0), Some (Num 0), Some (Num 0), Some (Num 0)]"
    by (simp add: countsOnly_def)
  from forEach_weeklyEach_countsOnly [OF this assms(1) w] have "countsOnly w" .
  then show ?thesis
    unfolding r countsOnly_def
    by (auto simp: list_all_length isCount_mathMax1)
qed

section \<open>The dashboard totals\<close>

lemma processUser_shelf_failure:
  "fails (GetCollection (fst u) ''shelf'') \<Longrightarrow> processUser fails st parse now u a = a"
  by (simp add: processUser_def)

lemma processUser_history_failure:
  "\<not> fails (GetCollection (fst u) ''shelf'') \<Longrightarrow> fails (GetCollection (fst u) ''history'')
     \<Longrightarrow> processUser fails st parse now u a
           = a\<lparr>totalShelfItems := totalShelfItems a + length (subcollection st (fst u) ''shelf'')\<rparr>"
  by (simp add: processUser_def Let_def)

lemma dashboardStats_spec_example:
  "dashboardStats noFailure oneUserStore noParse 1700000000000 =
     Ok200 \<lparr>totalUsers = 1, newUsers = 1, responseTotalScans = 2, papayasOnShelf = 2,
            ripenessDistribution = \<lparr>unripe = 1, ripe = 0, overripe = 1\<rparr>,
            weeklyScans = [Some (Num 1), Some (Num 1), Some (Num 1), Some (Num 2)],
            recentActivities = [\<lparr>user = ''ana@example.org'', action = ''Scanned Papaya A - green'',
                                 time = ''45 mins ago'', type = Some ''scan''\<rparr>,
                                \<lparr>user = ''ana@example.org'', action = ''Scanned Papaya B - rotten'',
                                 time = ''3 hr ago'', type = Some ''scan''\<rparr>],
            activeUsers = 2, statsTotalShelfItems = 2, statsTotalHistoryItems = 0\<rparr>"
  by code_simp

text \<open>
  Claim C2. The claim: a user whose shelf or history fetch fails contributes zero to
  \<^verbatim>\<open>totalShelfItems\<close>, \<^verbatim>\<open>totalHistoryItems\<close> and \<^verbatim>\<open>totalScans\<close>, and the request succeeds.
  The handler adds the shelf count to \<^verbatim>\<open>totalShelfItems\<close> before it fetches the history: for
  one user with two shelf documents whose history fetch fails, the request succeeds with
  \<^verbatim>\<open>totalScans\<close> 0 and with \<^verbatim>\<open>papayasOnShelf\<close> and \<^verbatim>\<open>userStats.totalShelfItems\<close> 2.
\<close>

theorem dashboardStats_history_failure:
  "dashboardStats historyOfU1Fails oneUserStore noParse 1700000000000 =
     Ok200 \<lparr>totalUsers = 1, newUsers = 1, responseTotalScans = 0, papayasOnShelf = 2,
            ripenessDistribution = \<lparr>unripe = 1, ripe = 1, overripe = 1\<rparr>,
            weeklyScans = [Some (Num 2), Some (Num 5), Some (Num 8), Some (Num 12)],
            recentActivities = [\<lparr>user = ''No activity yet'', action = ''Waiting for user scans'',
                                 time = ''Just now'', type = None\<rparr>],
            activeUsers = 0, statsTotalShelfItems = 2, statsTotalHistoryItems = 0\<rparr>"
  by code_simp

text \<open>
  Claim C3. The claim: in every summary, \<^verbatim>\<open>totalScans\<close> is \<^verbatim>\<open>totalShelfItems\<close> plus
  \<^verbatim>\<open>totalHistoryItems\<close>, also when fetches fail. For two users, the first with one shelf and
  one history document and the second with three shelf documents and a failing history
  fetch, the summary has \<^verbatim>\<open>totalScans\<close> 2, \<^verbatim>\<open>totalShelfItems\<close> 4 and \<^verbatim>\<open>totalHistoryItems\<close> 1.
\<close>

theorem dashboardStats_totals_differ:
  "\<exists>s. dashboardStats historyOfU1Fails twoUserStore noParse 1700000000000 = Ok200 s
       \<and> responseTotalScans s = 2 \<and> statsTotalShelfItems s = 4 \<and> statsTotalHistoryItems s = 1
       \<and> responseTotalScans s \<noteq> statsTotalShelfItems s + statsTotalHistoryItems s"
proof -
  have "case dashboardStats historyOfU1Fails twoUserStore noParse 1700000000000 of
          Ok200 s \<Rightarrow> responseTotalScans s = 2 \<and> statsTotalShelfItems s = 4
                      \<and> statsTotalHistoryItems s = 1
        | Fallback500 \<Rightarrow> False"
    by code_simp
  then show ?thesis by (auto split: dashboardResponse.splits)
qed

section \<open>Deleting a user\<close>



lemma deleteAll_frame:
  "deleteAll fails uid coll ds st log ok = (st', log', ok') \<Longrightarrow>
     users st' = users st \<and> authUsers st' = authUsers st"
proof (induction ds arbitrary: st log ok)
  case Nil
  then show ?case by simp
next
  case (Cons d ds)
  show ?case
  proof (cases "fails (DeleteDoc uid coll d)")
    case True
    with Cons.prems have "deleteAll fails uid coll ds st log False = (st', log', ok')" by simp
    from Cons.IH [OF this] show ?thesis .
  next
    case False
    let ?st = "st\<lparr>subcollection := (subcollection st)(uid := (subcollection st uid)
                 (coll := removeDoc d (subcollection st uid coll)))\<rparr>"
    from False Cons.prems
    have "deleteAll fails uid coll ds ?st (log @ [DeleteDoc uid coll d]) ok = (st', log', ok')"
      by simp
    from Cons.IH [OF this] show ?thesis by simp
  qed
qed








end
